theory Spec2Isabelle
  imports Main
begin

section \<open>Python values\<close>

text \<open>
  Exceptions are values. \<open>EmptyPrimitiveStore\<close> is the exception the store functions of
  \<^verbatim>\<open>beaver.py\<close> raise; \<open>AttributeError\<close> and \<open>TypeError\<close> are the built-in exceptions of
  a failed \<^verbatim>\<open>getattr\<close> and of a call with unexpected keyword arguments.
  \<open>UnknownOperationError\<close> is the name the specification uses; no statement of
  \<^verbatim>\<open>beaver.py\<close> raises it. \<open>CollaboratorError\<close> is any exception raised inside a
  collaborator whose code is outside \<^verbatim>\<open>beaver.py\<close>.
\<close>

datatype py_error =
    AttributeError
  | TypeError
  | EmptyPrimitiveStore
  | UnknownOperationError
  | CollaboratorError string

text \<open>
  An operand shape is a Python sequence of integers. The store functions format it into
  the key, and the text differs between a tuple and a list, so the container is part of
  the value.
\<close>

datatype shape = PyTuple "int list" | PyList "int list"

fun items :: "shape \<Rightarrow> int list" where
  "items (PyTuple xs) = xs"
| "items (PyList xs) = xs"

text \<open>Python's \<^verbatim>\<open>tuple(x)\<close>.\<close>

definition tuple_of :: "shape \<Rightarrow> shape" where
  "tuple_of x = PyTuple (items x)"

subsection \<open>Formatting, as \<^verbatim>\<open>str\<close> does it\<close>

definition digit_char :: "nat \<Rightarrow> char" where
  "digit_char d = ''0123456789'' ! d"

function str_nat :: "nat \<Rightarrow> string" where
  "str_nat n = (if n < 10 then [digit_char n] else str_nat (n div 10) @ [digit_char (n mod 10)])"
  by pat_completeness auto
termination
  by (relation "measure id") auto

declare str_nat.simps [simp del]

definition str_int :: "int \<Rightarrow> string" where
  "str_int i = (if i < 0 then CHR ''-'' # str_nat (nat (- i)) else str_nat (nat i))"

text \<open>\<^verbatim>\<open>", ".join(parts)\<close>\<close>

fun comma_join :: "string list \<Rightarrow> string" where
  "comma_join [] = []"
| "comma_join [x] = x"
| "comma_join (x # y # ys) = x @ '', '' @ comma_join (y # ys)"

text \<open>
  \<^verbatim>\<open>str\<close> of a tuple and of a list of integers: \<^verbatim>\<open>(2, 3)\<close>, \<^verbatim>\<open>(2,)\<close>, \<^verbatim>\<open>()\<close>,
  \<^verbatim>\<open>[2, 3]\<close>, \<^verbatim>\<open>[2]\<close>, \<^verbatim>\<open>[]\<close>.
\<close>

fun str_shape :: "shape \<Rightarrow> string" where
  "str_shape (PyTuple xs) =
     (case xs of
        [x] \<Rightarrow> ''('' @ str_int x @ '',)''
      | _ \<Rightarrow> ''('' @ comma_join (map str_int xs) @ '')'')"
| "str_shape (PyList xs) = ''['' @ comma_join (map str_int xs) @ '']''"

section \<open>The primitive store\<close>

text \<open>
  The store is a Python dict from key strings to list objects. \<^verbatim>\<open>store[key] = primitives\<close>
  installs the caller's list object itself, and \<^verbatim>\<open>extend\<close> and \<^verbatim>\<open>del\<close> change a list
  object in place, so the model keeps the dict (\<open>store\<close>: key to reference) apart from the
  contents of the list objects (\<open>heap\<close>: reference to contents).
\<close>

type_synonym addr = nat

record 'a py_state =
  store :: "string \<rightharpoonup> addr"
  heap :: "addr \<Rightarrow> 'a list"

text \<open>The queue a key addresses, if the key is in the dict.\<close>

definition queue :: "'a py_state \<Rightarrow> string \<Rightarrow> 'a list option" where
  "queue s k = map_option (heap s) (store s k)"

subsection \<open>Adding and retrieving\<close>

text \<open>
  \<^verbatim>\<open>mul_store_add\<close>: the key is \<^verbatim>\<open>f"beaver_mul_{a_shape}_{b_shape}"\<close>; then
  \<^verbatim>\<open>if config_key in store: store[config_key].extend(primitives)\<close>,
  \<^verbatim>\<open>else: store[config_key] = primitives\<close>.
  \<open>primitives\<close> is the reference of the list object the caller passes; \<^verbatim>\<open>extend\<close> appends
  its current contents to the stored object (which may be that same object).
\<close>

definition mul_store_add :: "'a py_state \<Rightarrow> addr \<Rightarrow> shape \<Rightarrow> shape \<Rightarrow> 'a py_state" where
  "mul_store_add s primitives a_shape b_shape =
     (let config_key = ''beaver_mul_'' @ str_shape a_shape @ ''_'' @ str_shape b_shape in
      case store s config_key of
        Some q \<Rightarrow> s\<lparr>heap := (heap s)(q := heap s q @ heap s primitives)\<rparr>
      | None \<Rightarrow> s\<lparr>store := (store s)(config_key \<mapsto> primitives)\<rparr>)"

text \<open>
  \<^verbatim>\<open>mul_store_get\<close>: the key is \<^verbatim>\<open>f"beaver_mul_{tuple(a_shape)}_{tuple(b_shape)}"\<close>. A
  \<^verbatim>\<open>KeyError\<close> on \<^verbatim>\<open>store[config_key]\<close> and any exception on \<^verbatim>\<open>primitives[0]\<close> become
  \<^verbatim>\<open>EmptyPrimitiveStore\<close>; \<^verbatim>\<open>del primitives[0]\<close> runs when \<open>remove\<close> holds. The result is
  the value returned or the exception raised, and the state after the call.
\<close>

definition mul_store_get ::
  "'a py_state \<Rightarrow> shape \<Rightarrow> shape \<Rightarrow> bool \<Rightarrow> (py_error + 'a) \<times> 'a py_state" where
  "mul_store_get s a_shape b_shape remove =
     (let config_key =
            ''beaver_mul_'' @ str_shape (tuple_of a_shape) @ ''_'' @ str_shape (tuple_of b_shape) in
      case store s config_key of
        None \<Rightarrow> (Inl EmptyPrimitiveStore, s)
      | Some primitives \<Rightarrow>
          (case heap s primitives of
             [] \<Rightarrow> (Inl EmptyPrimitiveStore, s)
           | primitive # rest \<Rightarrow>
               (Inr primitive,
                if remove then s\<lparr>heap := (heap s)(primitives := rest)\<rparr> else s)))"

text \<open>\<^verbatim>\<open>matmul_store_add\<close> and \<^verbatim>\<open>matmul_store_get\<close>: the same with \<^verbatim>\<open>beaver_matmul\<close>.\<close>

definition matmul_store_add :: "'a py_state \<Rightarrow> addr \<Rightarrow> shape \<Rightarrow> shape \<Rightarrow> 'a py_state" where
  "matmul_store_add s primitives a_shape b_shape =
     (let config_key = ''beaver_matmul_'' @ str_shape a_shape @ ''_'' @ str_shape b_shape in
      case store s config_key of
        Some q \<Rightarrow> s\<lparr>heap := (heap s)(q := heap s q @ heap s primitives)\<rparr>
      | None \<Rightarrow> s\<lparr>store := (store s)(config_key \<mapsto> primitives)\<rparr>)"

definition matmul_store_get ::
  "'a py_state \<Rightarrow> shape \<Rightarrow> shape \<Rightarrow> bool \<Rightarrow> (py_error + 'a) \<times> 'a py_state" where
  "matmul_store_get s a_shape b_shape remove =
     (let config_key =
            ''beaver_matmul_'' @ str_shape (tuple_of a_shape) @ ''_'' @ str_shape (tuple_of b_shape) in
      case store s config_key of
        None \<Rightarrow> (Inl EmptyPrimitiveStore, s)
      | Some primitives \<Rightarrow>
          (case heap s primitives of
             [] \<Rightarrow> (Inl EmptyPrimitiveStore, s)
           | primitive # rest \<Rightarrow>
               (Inr primitive,
                if remove then s\<lparr>heap := (heap s)(primitives := rest)\<rparr> else s)))"

text \<open>
  The decorators \<^verbatim>\<open>@register_primitive_store_add\<close> and \<^verbatim>\<open>@register_primitive_store_get\<close>
  file these functions under the operation names \<^verbatim>\<open>"beaver_mul"\<close> and \<^verbatim>\<open>"beaver_matmul"\<close>.
\<close>

datatype beaver_op = BeaverMul | BeaverMatmul

fun store_add :: "beaver_op \<Rightarrow> 'a py_state \<Rightarrow> addr \<Rightarrow> shape \<Rightarrow> shape \<Rightarrow> 'a py_state" where
  "store_add BeaverMul = mul_store_add"
| "store_add BeaverMatmul = matmul_store_add"

fun store_get ::
  "beaver_op \<Rightarrow> 'a py_state \<Rightarrow> shape \<Rightarrow> shape \<Rightarrow> bool \<Rightarrow> (py_error + 'a) \<times> 'a py_state" where
  "store_get BeaverMul = mul_store_get"
| "store_get BeaverMatmul = matmul_store_get"

subsection \<open>The key of a call, and the two bodies\<close>

text \<open>
  For the statements: the \<^verbatim>\<open>config_key\<close> that the add function and the get function of an
  operation build, and what the four functions do once the key is built.
\<close>

fun op_name :: "beaver_op \<Rightarrow> string" where
  "op_name BeaverMul = ''beaver_mul''"
| "op_name BeaverMatmul = ''beaver_matmul''"

definition add_key :: "beaver_op \<Rightarrow> shape \<Rightarrow> shape \<Rightarrow> string" where
  "add_key opn a_shape b_shape = op_name opn @ ''_'' @ str_shape a_shape @ ''_'' @ str_shape b_shape"

definition get_key :: "beaver_op \<Rightarrow> shape \<Rightarrow> shape \<Rightarrow> string" where
  "get_key opn a_shape b_shape =
     op_name opn @ ''_'' @ str_shape (tuple_of a_shape) @ ''_'' @ str_shape (tuple_of b_shape)"

definition store_add_at :: "'a py_state \<Rightarrow> string \<Rightarrow> addr \<Rightarrow> 'a py_state" where
  "store_add_at s config_key primitives =
     (case store s config_key of
        Some q \<Rightarrow> s\<lparr>heap := (heap s)(q := heap s q @ heap s primitives)\<rparr>
      | None \<Rightarrow> s\<lparr>store := (store s)(config_key \<mapsto> primitives)\<rparr>)"

definition store_get_at ::
  "'a py_state \<Rightarrow> string \<Rightarrow> bool \<Rightarrow> (py_error + 'a) \<times> 'a py_state" where
  "store_get_at s config_key remove =
     (case store s config_key of
        None \<Rightarrow> (Inl EmptyPrimitiveStore, s)
      | Some primitives \<Rightarrow>
          (case heap s primitives of
             [] \<Rightarrow> (Inl EmptyPrimitiveStore, s)
           | primitive # rest \<Rightarrow>
               (Inr primitive,
                if remove then s\<lparr>heap := (heap s)(primitives := rest)\<rparr> else s)))"

section \<open>The reshape\<close>

text \<open>
  Python's \<^verbatim>\<open>zip(*rows)\<close>: nothing for no rows; otherwise it takes the next item of every
  row, in order, until some row is exhausted.
\<close>

function py_zip :: "'a list list \<Rightarrow> 'a list list" where
  "py_zip rows =
     (if rows = [] \<or> [] \<in> set rows then [] else map hd rows # py_zip (map tl rows))"
  by pat_completeness auto
termination
proof (relation "measure (\<lambda>rows. length (hd rows))")
  show "wf (measure (\<lambda>rows. length (hd rows)))" by simp
next
  fix rows :: "'a list list"
  assume "\<not> (rows = [] \<or> [] \<in> set rows)"
  then have "rows \<noteq> []" and "hd rows \<noteq> []" by (simp, metis hd_in_set)
  then have "length (hd (map tl rows)) < length (hd rows)"
    by (cases rows) (simp_all add: hd_map)
  then show "(map tl rows, rows) \<in> measure (\<lambda>rows. length (hd rows))" by simp
qed

declare py_zip.simps [simp del]

text \<open>
  \<^verbatim>\<open>list(map(list, zip(*map(lambda x: map(list, zip(*x)), triple_sequential))))\<close>.
  A record \<open>x\<close> is the tuple \<^verbatim>\<open>(a_shares, b_shares, c_shares)\<close>; tuples and lists are both
  lists here, so \<^verbatim>\<open>map(list, ...)\<close> changes nothing.
\<close>

definition reshape :: "('s list \<times> 's list \<times> 's list) list \<Rightarrow> 's list list list" where
  "reshape triple_sequential =
     py_zip (map (\<lambda>(a_shares, b_shares, c_shares). py_zip [a_shares, b_shares, c_shares])
       triple_sequential)"

section \<open>The triple generator\<close>

text \<open>
  \<^verbatim>\<open>_get_triples\<close> works through collaborators whose code is outside \<^verbatim>\<open>beaver.py\<close>: the
  \<^verbatim>\<open>Tensor\<close> class (\<open>'t\<close>) with its \<^verbatim>\<open>*\<close>, \<^verbatim>\<open>@\<close> and \<^verbatim>\<open>.shape\<close>, the \<^verbatim>\<open>ShareTensor\<close> class
  (\<open>'s\<close>), \<^verbatim>\<open>ShareTensor.compute_min_max_from_ring\<close>,
  \<^verbatim>\<open>MPCTensor._get_shares_from_local_secret\<close>, and the two sources of randomness,
  \<^verbatim>\<open>secrets.randbits\<close> and the numpy generator \<^verbatim>\<open>ttp_generator\<close>. They are parameters of
  the model. A collaborator may raise. The outcomes of the random draws of one call are
  given by the environment: \<open>randbits k\<close> is what \<^verbatim>\<open>secrets.randbits(k)\<close> returns, and
  \<open>integers i low high size\<close> is the tensor made from the \<open>i\<close>-th call of
  \<^verbatim>\<open>ttp_generator.integers(low=low, high=high, size=size, endpoint=True, dtype=np.int32)\<close>.
  \<open>operator_other\<close> holds the attributes of Python's \<^verbatim>\<open>operator\<close> module other than
  \<^verbatim>\<open>mul\<close> and \<^verbatim>\<open>matmul\<close>, each as what calling it with two tensors and keyword arguments
  does.
\<close>

type_synonym kwargs = "string list"

type_synonym 't cmd = "'t \<Rightarrow> 't \<Rightarrow> kwargs \<Rightarrow> py_error + 't"

record ('t, 's) ttp_env =
  tensor_mul :: "'t \<Rightarrow> 't \<Rightarrow> py_error + 't"
  tensor_matmul :: "'t \<Rightarrow> 't \<Rightarrow> py_error + 't"
  tensor_shape :: "'t \<Rightarrow> shape"
  operator_other :: "string \<rightharpoonup> 't cmd"
  compute_min_max_from_ring :: "int \<Rightarrow> py_error + int \<times> int"
  randbits :: "nat \<Rightarrow> nat"
  integers :: "nat \<Rightarrow> int \<Rightarrow> int \<Rightarrow> shape \<Rightarrow> py_error + 't"
  get_shares_from_local_secret :: "'t \<Rightarrow> int \<Rightarrow> shape \<Rightarrow> nat \<Rightarrow> py_error + 's list"

text \<open>
  \<^verbatim>\<open>operator.mul(a, b)\<close> is \<^verbatim>\<open>a * b\<close> and \<^verbatim>\<open>operator.matmul(a, b)\<close> is \<^verbatim>\<open>a @ b\<close>; neither
  takes keyword arguments.
\<close>

definition operator_mul :: "('t, 's) ttp_env \<Rightarrow> 't cmd" where
  "operator_mul env a b kw = (if kw \<noteq> [] then Inl TypeError else tensor_mul env a b)"

definition operator_matmul :: "('t, 's) ttp_env \<Rightarrow> 't cmd" where
  "operator_matmul env a b kw = (if kw \<noteq> [] then Inl TypeError else tensor_matmul env a b)"

text \<open>\<^verbatim>\<open>getattr(operator, op_str)\<close>; \<open>None\<close> is the \<^verbatim>\<open>AttributeError\<close>.\<close>

definition getattr_operator :: "('t, 's) ttp_env \<Rightarrow> string \<Rightarrow> 't cmd option" where
  "getattr_operator env op_str =
     (if op_str = ''mul'' then Some (operator_mul env)
      else if op_str = ''matmul'' then Some (operator_matmul env)
      else operator_other env op_str)"

text \<open>
  A run of the generator: the calls it made to the sources of randomness, to the share
  splitter and to the combinator (\<open>Cmd\<close>: \<^verbatim>\<open>cmd(a_rand, b_rand, **kwargs)\<close>), in program
  order, and its result.
\<close>

datatype 't event =
    RandBits nat nat
  | Integers int int shape
  | GetShares 't int shape nat
  | Cmd 't 't

type_synonym ('t, 'a) run = "'t event list \<times> (py_error + 'a)"

definition pure :: "py_error + 'a \<Rightarrow> ('t, 'a) run" where
  "pure r = ([], r)"

definition call :: "'t event \<Rightarrow> py_error + 'a \<Rightarrow> ('t, 'a) run" where
  "call ev r = ([ev], r)"

definition and_then :: "('t, 'a) run \<Rightarrow> ('a \<Rightarrow> ('t, 'b) run) \<Rightarrow> ('t, 'b) run" where
  "and_then m f =
     (case m of
        (log, Inl e) \<Rightarrow> (log, Inl e)
      | (log, Inr x) \<Rightarrow> (case f x of (log', r) \<Rightarrow> (log @ log', r)))"

definition get_triples ::
  "('t, 's) ttp_env \<Rightarrow> string \<Rightarrow> int \<Rightarrow> shape \<Rightarrow> shape \<Rightarrow> int \<Rightarrow> kwargs \<Rightarrow> ('t, 's list list list) run" where
  "get_triples env op_str nr_parties a_shape b_shape ring_size kw =
     and_then (pure (case getattr_operator env op_str of
                       None \<Rightarrow> Inl AttributeError | Some cmd \<Rightarrow> Inr cmd)) (\<lambda>cmd.
     and_then (pure (compute_min_max_from_ring env ring_size)) (\<lambda>(min_value, max_value).
     and_then (call (RandBits 32 (randbits env 32)) (Inr (randbits env 32))) (\<lambda>seed_shares.
     and_then (call (Integers min_value max_value a_shape)
                 (integers env 0 min_value max_value a_shape)) (\<lambda>a_rand.
     and_then (call (GetShares a_rand nr_parties a_shape seed_shares)
                 (get_shares_from_local_secret env a_rand nr_parties a_shape seed_shares)) (\<lambda>a_shares.
     and_then (call (Integers min_value max_value b_shape)
                 (integers env 1 min_value max_value b_shape)) (\<lambda>b_rand.
     and_then (call (GetShares b_rand nr_parties b_shape seed_shares)
                 (get_shares_from_local_secret env b_rand nr_parties b_shape seed_shares)) (\<lambda>b_shares.
     and_then (call (Cmd a_rand b_rand) (cmd a_rand b_rand kw)) (\<lambda>c_val.
     and_then (call (GetShares c_val nr_parties (tensor_shape env c_val) seed_shares)
                 (get_shares_from_local_secret env c_val nr_parties (tensor_shape env c_val)
                    seed_shares)) (\<lambda>c_shares.
     pure (Inr (reshape [(a_shares, b_shares, c_shares)])))))))))))"

definition get_triples_mul ::
  "('t, 's) ttp_env \<Rightarrow> int \<Rightarrow> shape \<Rightarrow> shape \<Rightarrow> int \<Rightarrow> kwargs \<Rightarrow> ('t, 's list list list) run" where
  "get_triples_mul env nr_parties a_shape b_shape ring_size kw =
     get_triples env ''mul'' nr_parties a_shape b_shape ring_size kw"

definition get_triples_matmul ::
  "('t, 's) ttp_env \<Rightarrow> int \<Rightarrow> shape \<Rightarrow> shape \<Rightarrow> int \<Rightarrow> kwargs \<Rightarrow> ('t, 's list list list) run" where
  "get_triples_matmul env nr_parties a_shape b_shape ring_size kw =
     get_triples env ''matmul'' nr_parties a_shape b_shape ring_size kw"

text \<open>
  \<^verbatim>\<open>@register_primitive_generator\<close> files the two generators under \<^verbatim>\<open>"beaver_mul"\<close> and
  \<^verbatim>\<open>"beaver_matmul"\<close>; \<open>combinator\<close> is the tensor operation each of them names.
\<close>

fun generator ::
  "beaver_op \<Rightarrow> ('t, 's) ttp_env \<Rightarrow> int \<Rightarrow> shape \<Rightarrow> shape \<Rightarrow> int \<Rightarrow> kwargs \<Rightarrow> ('t, 's list list list) run" where
  "generator BeaverMul = get_triples_mul"
| "generator BeaverMatmul = get_triples_matmul"

fun combinator :: "beaver_op \<Rightarrow> ('t, 's) ttp_env \<Rightarrow> 't \<Rightarrow> 't \<Rightarrow> py_error + 't" where
  "combinator BeaverMul = tensor_mul"
| "combinator BeaverMatmul = tensor_matmul"



text \<open>The number of calls of the share splitter a run made before it called the combinator.\<close>

fun splits_before_cmd :: "'t event list \<Rightarrow> nat" where
  "splits_before_cmd [] = 0"
| "splits_before_cmd (Cmd a b # es) = 0"
| "splits_before_cmd (GetShares t n s seed # es) = Suc (splits_before_cmd es)"
| "splits_before_cmd (e # es) = splits_before_cmd es"

section \<open>Auxiliary notions for the proofs\<close>

text \<open>The characters of a decimal numeral, and texts that hold no separator of a key.\<close>

definition digit_chars :: "char set" where
  "digit_chars = set ''0123456789''"

definition plain :: "string \<Rightarrow> bool" where
  "plain x \<longleftrightarrow> x \<noteq> [] \<and> CHR '','' \<notin> set x \<and> CHR ''_'' \<notin> set x \<and> CHR '')'' \<notin> set x"

text \<open>
  Sample states: no key at all, with the list object at reference 0 empty and the one at
  reference 1 holding the single primitive 7; no key at all and three list objects of one
  primitive each; and one queue of two primitives.
\<close>

definition empty_state :: "nat py_state" where
  "empty_state = \<lparr>store = Map.empty, heap = (\<lambda>_. [])(1 := [7])\<rparr>"

definition three_bundles :: "nat py_state" where
  "three_bundles = \<lparr>store = Map.empty, heap = (\<lambda>_. [])(1 := [7], 2 := [8], 3 := [9])\<rparr>"

definition demo_store :: "nat py_state" where
  "demo_store = \<lparr>store = [''beaver_mul_(2, 3)_(3,)'' \<mapsto> 0], heap = (\<lambda>_. [])(0 := [5, 6])\<rparr>"

text \<open>
  A sample environment: tensors are vectors of integers, a share is a vector, the first
  \<open>n - 1\<close> shares are filled with the seed and the last one is the residual.
\<close>

definition demo_env :: "(int list, int list) ttp_env" where
  "demo_env = \<lparr>
     tensor_mul = (\<lambda>a b. if length a = length b then Inr (map2 (*) a b)
                          else Inl (CollaboratorError ''shapes'')),
     tensor_matmul = (\<lambda>a b. if length a = length b then Inr [sum_list (map2 (*) a b)]
                             else Inl (CollaboratorError ''shapes'')),
     tensor_shape = (\<lambda>t. PyTuple [int (length t)]),
     operator_other = [''add'' \<mapsto> (\<lambda>a b kw. if kw \<noteq> [] then Inl TypeError else Inr (map2 (+) a b))],
     compute_min_max_from_ring = (\<lambda>r. Inr (- r div 2, (r - 1) div 2)),
     randbits = (\<lambda>k. 11),
     integers = (\<lambda>i low high size. Inr (if i = 0 then [3, 5] else [2, 7])),
     get_shares_from_local_secret = (\<lambda>secret n size seed.
        Inr (replicate (nat n - 1) (map (\<lambda>_. int seed) secret)
             @ [map (\<lambda>x. x - (n - 1) * int seed) secret]))\<rparr>"

section \<open>Facts about the formatting of keys\<close>

lemma digit_char_in: "d < 10 \<Longrightarrow> digit_char d \<in> digit_chars"
  unfolding digit_char_def digit_chars_def by (rule nth_mem) simp

lemma digit_char_inj: "d < 10 \<Longrightarrow> e < 10 \<Longrightarrow> digit_char d = digit_char e \<Longrightarrow> d = e"
proof -
  assume d: "d < 10" and e: "e < 10" and eq: "digit_char d = digit_char e"
  have dist: "distinct ''0123456789''" by simp
  from eq have "''0123456789'' ! d = ''0123456789'' ! e" by (simp add: digit_char_def)
  with dist d e show "d = e" by (simp add: nth_eq_iff_index_eq)
qed

lemma str_nat_chars: "set (str_nat n) \<subseteq> digit_chars"
proof (induction n rule: str_nat.induct)
  case (1 n)
  show ?case
  proof (cases "n < 10")
    case True
    then show ?thesis using digit_char_in [of n] by (subst str_nat.simps) simp
  next
    case False
    have "n mod 10 < 10" by simp
    then have "digit_char (n mod 10) \<in> digit_chars" by (rule digit_char_in)
    with False 1 show ?thesis by (subst str_nat.simps) simp
  qed
qed

lemma str_nat_nonempty: "str_nat n \<noteq> []"
  by (subst str_nat.simps) simp

lemma str_nat_length_ge2: "10 \<le> n \<Longrightarrow> 2 \<le> length (str_nat n)"
proof -
  assume "10 \<le> n"
  then have "str_nat n = str_nat (n div 10) @ [digit_char (n mod 10)]"
    by (subst str_nat.simps) simp
  moreover have "1 \<le> length (str_nat (n div 10))"
    using str_nat_nonempty [of "n div 10"] by (cases "str_nat (n div 10)") simp_all
  ultimately show ?thesis by simp
qed

lemma str_nat_inj: "str_nat n = str_nat m \<Longrightarrow> n = m"
proof (induction n arbitrary: m rule: str_nat.induct)
  case (1 n)
  show ?case
  proof (cases "n < 10")
    case nlt: True
    then have n1: "str_nat n = [digit_char n]" by (subst str_nat.simps) simp
    show ?thesis
    proof (cases "m < 10")
      case True
      then have "str_nat m = [digit_char m]" by (subst str_nat.simps) simp
      with n1 1(2) nlt True show ?thesis by (simp add: digit_char_inj)
    next
      case False
      then have "2 \<le> length (str_nat m)" by (simp add: str_nat_length_ge2)
      with n1 1(2) show ?thesis by simp
    qed
  next
    case nge: False
    then have n1: "str_nat n = str_nat (n div 10) @ [digit_char (n mod 10)]"
      by (subst str_nat.simps) simp
    show ?thesis
    proof (cases "m < 10")
      case True
      then have "str_nat m = [digit_char m]" by (subst str_nat.simps) simp
      moreover from nge have "2 \<le> length (str_nat n)" by (simp add: str_nat_length_ge2)
      ultimately show ?thesis using 1(2) by simp
    next
      case False
      then have "str_nat m = str_nat (m div 10) @ [digit_char (m mod 10)]"
        by (subst str_nat.simps) simp
      with n1 1(2) have a: "str_nat (n div 10) = str_nat (m div 10)"
        and b: "digit_char (n mod 10) = digit_char (m mod 10)" by simp_all
      from 1(1) [OF nge a] have "n div 10 = m div 10" .
      moreover from b have "n mod 10 = m mod 10" by (simp add: digit_char_inj)
      ultimately show ?thesis by (metis div_mult_mod_eq)
    qed
  qed
qed

lemma str_int_chars: "c \<notin> digit_chars \<Longrightarrow> c \<noteq> CHR ''-'' \<Longrightarrow> c \<notin> set (str_int i)"
  using str_nat_chars [of "nat i"] str_nat_chars [of "nat (- i)"]
  by (auto simp: str_int_def)

lemma str_int_nonempty: "str_int i \<noteq> []"
  by (simp add: str_int_def str_nat_nonempty)

lemma str_nat_no_minus: "CHR ''-'' # r \<noteq> str_nat n"
proof
  assume "CHR ''-'' # r = str_nat n"
  then have "CHR ''-'' \<in> set (str_nat n)" by (metis list.set_intros(1))
  with str_nat_chars [of n] show False by (auto simp: digit_chars_def)
qed

lemma str_int_inj: "str_int i = str_int j \<Longrightarrow> i = j"
proof -
  assume eq: "str_int i = str_int j"
  show "i = j"
  proof (cases "i < 0"; cases "j < 0")
    assume "i < 0" "j < 0"
    with eq have "nat (- i) = nat (- j)" by (simp add: str_int_def str_nat_inj)
    with \<open>i < 0\<close> \<open>j < 0\<close> show ?thesis by simp
  next
    assume "i < 0" "\<not> j < 0"
    with eq show ?thesis
      using str_nat_no_minus [of "str_nat (nat (- i))" "nat j"] by (simp add: str_int_def)
  next
    assume "\<not> i < 0" "j < 0"
    with eq show ?thesis
      using str_nat_no_minus [of "str_nat (nat (- j))" "nat i"] by (simp add: str_int_def)
  next
    assume "\<not> i < 0" "\<not> j < 0"
    with eq have "nat i = nat j" by (simp add: str_int_def str_nat_inj)
    with \<open>\<not> i < 0\<close> \<open>\<not> j < 0\<close> show ?thesis by simp
  qed
qed

text \<open>Splitting a text at the first occurrence of a separator.\<close>

lemma split_at_first:
  "c \<notin> set x \<Longrightarrow> c \<notin> set y \<Longrightarrow> x @ c # u = y @ c # v \<Longrightarrow> x = y \<and> u = v"
proof (induction x arbitrary: y)
  case Nil
  then show ?case by (cases y) auto
next
  case (Cons a x)
  then show ?case by (cases y) auto
qed

lemma plain_str_int: "plain (str_int i)"
  by (simp add: plain_def str_int_nonempty str_int_chars digit_chars_def)

lemma comma_join_nonempty: "list_all plain xs \<Longrightarrow> xs \<noteq> [] \<Longrightarrow> comma_join xs \<noteq> []"
  by (induction xs rule: comma_join.induct) (auto simp: plain_def)

lemma comma_join_inj:
  "list_all plain xs \<Longrightarrow> list_all plain ys \<Longrightarrow> comma_join xs = comma_join ys \<Longrightarrow> xs = ys"
proof (induction xs arbitrary: ys rule: comma_join.induct)
  case 1
  then show ?case using comma_join_nonempty [of ys] by (cases ys) auto
next
  case (2 x)
  show ?case
  proof (cases ys rule: comma_join.cases)
    case 1
    with 2 show ?thesis by (simp add: plain_def)
  next
    case (2 y)
    with "2.prems" show ?thesis by simp
  next
    case (3 y y' ys')
    with "2.prems" have "x = y @ CHR '','' # CHR '' '' # comma_join (y' # ys')" by simp
    then have "CHR '','' \<in> set x" by simp
    with "2.prems"(1) show ?thesis by (simp add: plain_def)
  qed
next
  case (3 x x' xs')
  show ?case
  proof (cases ys rule: comma_join.cases)
    case 1
    with "3.prems" show ?thesis by (simp add: plain_def)
  next
    case (2 y)
    with "3.prems" have "y = x @ CHR '','' # CHR '' '' # comma_join (x' # xs')" by simp
    then have "CHR '','' \<in> set y" by simp
    with "3.prems"(2) 2 show ?thesis by (simp add: plain_def)
  next
    case ys: (3 y y' ys')
    with "3.prems" have eq: "x @ CHR '','' # (CHR '' '' # comma_join (x' # xs'))
        = y @ CHR '','' # (CHR '' '' # comma_join (y' # ys'))" by simp
    have "CHR '','' \<notin> set x" "CHR '','' \<notin> set y"
      using "3.prems" ys by (simp_all add: plain_def)
    from split_at_first [OF this eq] have xy: "x = y"
      and rest: "comma_join (x' # xs') = comma_join (y' # ys')" by simp_all
    from "3.IH" [of "y' # ys'"] "3.prems" ys rest have "x' # xs' = y' # ys'" by simp
    with xy ys show ?thesis by simp
  qed
qed

lemma comma_join_no_underscore:
  "list_all plain xs \<Longrightarrow> CHR ''_'' \<notin> set (comma_join xs)"
  by (induction xs rule: comma_join.induct) (simp_all add: plain_def)

lemma map_str_int_inj: "map str_int xs = map str_int ys \<Longrightarrow> xs = ys"
  by (rule map_injective) (auto simp: inj_on_def dest: str_int_inj)

lemma all_plain: "list_all plain (map str_int xs)"
  by (simp add: list_all_iff plain_str_int)

lemma list_cases3 [case_names none one many]:
  assumes "xs = [] \<Longrightarrow> P" "\<And>x. xs = [x] \<Longrightarrow> P" "\<And>x y zs. xs = x # y # zs \<Longrightarrow> P"
  shows P
proof (cases xs)
  case Nil
  then show ?thesis using assms(1) by simp
next
  case (Cons a as)
  then show ?thesis using assms(2,3) by (cases as) auto
qed

lemma str_shape_no_underscore: "CHR ''_'' \<notin> set (str_shape x)"
proof -
  have cj: "CHR ''_'' \<notin> set (comma_join (map str_int xs))" for xs
    by (rule comma_join_no_underscore) (rule all_plain)
  have si: "CHR ''_'' \<notin> set (str_int i)" for i
    using plain_str_int [of i] by (simp add: plain_def)
  show ?thesis
  proof (cases x)
    case (PyTuple xs)
    show ?thesis
    proof (cases xs rule: list_cases3)
      case none
      then show ?thesis by (simp add: PyTuple)
    next
      case (one a)
      then show ?thesis using si [of a] by (simp add: PyTuple)
    next
      case (many a b zs)
      then show ?thesis using cj [of "a # b # zs"] by (simp add: PyTuple)
    qed
  next
    case (PyList xs)
    then show ?thesis using cj [of xs] by simp
  qed
qed

text \<open>The text of a tuple, by the number of its items.\<close>

lemma tuple_one_none: "str_shape (PyTuple [x]) \<noteq> str_shape (PyTuple [])"
  using str_int_nonempty [of x] by (cases "str_int x") simp_all

lemma tuple_many_none: "str_shape (PyTuple (x # y # zs)) \<noteq> str_shape (PyTuple [])"
  using str_int_nonempty [of x] plain_str_int [of x]
  by (cases "str_int x") (auto simp: plain_def)

lemma tuple_one_many: "str_shape (PyTuple [x]) \<noteq> str_shape (PyTuple (y # y' # zs))"
proof
  assume "str_shape (PyTuple [x]) = str_shape (PyTuple (y # y' # zs))"
  then have eq: "str_int x @ CHR '','' # '')'' =
      str_int y @ CHR '','' # ('' '' @ comma_join (map str_int (y' # zs)) @ '')'')" by simp
  have c: "CHR '','' \<notin> set (str_int i)" for i
    using plain_str_int [of i] by (simp add: plain_def)
  from split_at_first [OF c c eq] show False by simp
qed

lemma tuple_many_many:
  assumes "str_shape (PyTuple (x # y # zs)) = str_shape (PyTuple (x' # y' # zs'))"
  shows "x # y # zs = x' # y' # zs'"
proof -
  from assms have "comma_join (map str_int (x # y # zs)) = comma_join (map str_int (x' # y' # zs'))"
    by simp
  then have "map str_int (x # y # zs) = map str_int (x' # y' # zs')"
    by (rule comma_join_inj [OF all_plain all_plain])
  then show ?thesis by (rule map_str_int_inj)
qed

lemma str_tuple_inj:
  assumes eq: "str_shape (PyTuple xs) = str_shape (PyTuple ys)"
  shows "xs = ys"
proof (cases xs rule: list_cases3)
  case none
  note xs = this
  show ?thesis
  proof (cases ys rule: list_cases3)
    case none
    with xs show ?thesis by simp
  next
    case (one y)
    with xs eq tuple_one_none [of y] show ?thesis by metis
  next
    case (many y y' zs)
    with xs eq tuple_many_none [of y y' zs] show ?thesis by metis
  qed
next
  case (one x)
  note xs = this
  show ?thesis
  proof (cases ys rule: list_cases3)
    case none
    with xs eq tuple_one_none [of x] show ?thesis by metis
  next
    case (one y)
    with xs eq have "str_int x = str_int y" by simp
    with xs one show ?thesis by (simp add: str_int_inj)
  next
    case (many y y' zs)
    with xs eq tuple_one_many [of x y y' zs] show ?thesis by metis
  qed
next
  case (many x x' zs)
  note xs = this
  show ?thesis
  proof (cases ys rule: list_cases3)
    case none
    with xs eq tuple_many_none [of x x' zs] show ?thesis by metis
  next
    case (one y)
    with xs eq tuple_one_many [of y x x' zs] show ?thesis by metis
  next
    case (many y y' zs')
    with xs eq tuple_many_many [of x x' zs y y' zs'] show ?thesis by metis
  qed
qed

lemma str_list_inj:
  assumes "str_shape (PyList xs) = str_shape (PyList ys)"
  shows "xs = ys"
proof -
  from assms have "comma_join (map str_int xs) = comma_join (map str_int ys)" by simp
  then have "map str_int xs = map str_int ys"
    by (rule comma_join_inj [OF all_plain all_plain])
  then show ?thesis by (rule map_str_int_inj)
qed

lemma str_tuple_hd: "\<exists>r. str_shape (PyTuple xs) = CHR ''('' # r"
  by (cases xs rule: list_cases3) simp_all

lemma str_list_hd: "\<exists>r. str_shape (PyList xs) = CHR ''['' # r"
  by simp

lemma str_tuple_ne_list: "str_shape (PyTuple xs) \<noteq> str_shape (PyList ys)"
  using str_tuple_hd [of xs] str_list_hd [of ys] by auto

lemma str_shape_inj: "str_shape x = str_shape y \<Longrightarrow> x = y"
proof (cases x; cases y)
  fix xs ys assume "x = PyTuple xs" "y = PyTuple ys" "str_shape x = str_shape y"
  then show ?thesis by (simp only: shape.inject) (metis str_tuple_inj)
next
  fix xs ys assume "x = PyTuple xs" "y = PyList ys" "str_shape x = str_shape y"
  then show ?thesis using str_tuple_ne_list [of xs ys] by metis
next
  fix xs ys assume "x = PyList xs" "y = PyTuple ys" "str_shape x = str_shape y"
  then show ?thesis using str_tuple_ne_list [of ys xs] by metis
next
  fix xs ys assume "x = PyList xs" "y = PyList ys" "str_shape x = str_shape y"
  then show ?thesis by (simp only: shape.inject) (metis str_list_inj)
qed

lemma key_parts:
  assumes "str_shape a @ CHR ''_'' # str_shape b = str_shape a' @ CHR ''_'' # str_shape b'"
  shows "a = a' \<and> b = b'"
proof -
  from split_at_first [OF str_shape_no_underscore str_shape_no_underscore assms]
  show ?thesis by (simp add: str_shape_inj)
qed

lemma key_eq_iff:
  "(add_key op1 a1 b1 = get_key op2 a2 b2) = (op1 = op2 \<and> a1 = tuple_of a2 \<and> b1 = tuple_of b2)"
proof (cases op1; cases op2)
  assume "op1 = BeaverMul" "op2 = BeaverMul"
  then show ?thesis
    using key_parts [of a1 b1 "tuple_of a2" "tuple_of b2"]
    by (auto simp: add_key_def get_key_def)
next
  assume "op1 = BeaverMatmul" "op2 = BeaverMatmul"
  then show ?thesis
    using key_parts [of a1 b1 "tuple_of a2" "tuple_of b2"]
    by (auto simp: add_key_def get_key_def)
next
  assume "op1 = BeaverMul" "op2 = BeaverMatmul"
  then show ?thesis by (simp add: add_key_def get_key_def)
next
  assume "op1 = BeaverMatmul" "op2 = BeaverMul"
  then show ?thesis by (simp add: add_key_def get_key_def)
qed

text \<open>A key that the add path builds from a list shape is never the key of a retrieval.\<close>

lemma list_key_never_read:
  "add_key op1 (PyList xs) b1 \<noteq> get_key op2 a2 b2" "add_key op1 a1 (PyList ys) \<noteq> get_key op2 a2 b2"
  by (simp_all add: key_eq_iff tuple_of_def)

lemma add_key_tuple_of: "add_key opn (tuple_of a) (tuple_of b) = get_key opn a b"
  by (simp add: add_key_def get_key_def tuple_of_def)

lemma mul_matmul_keys_differ:
  "add_key BeaverMul a b \<noteq> get_key BeaverMatmul a' b'"
  "add_key BeaverMatmul a b \<noteq> get_key BeaverMul a' b'"
  by (simp_all add: key_eq_iff)

text \<open>The equations that evaluate a key on literal shapes.\<close>

lemmas key_eval = add_key_def get_key_def tuple_of_def str_int_def str_nat.simps digit_char_def

section \<open>Facts about the store\<close>


lemma store_add_unfold:
  "store_add opn s primitives a_shape b_shape = store_add_at s (add_key opn a_shape b_shape) primitives"
  by (cases opn) (simp_all add: mul_store_add_def matmul_store_add_def store_add_at_def add_key_def Let_def)

lemma store_get_unfold:
  "store_get opn s a_shape b_shape remove = store_get_at s (get_key opn a_shape b_shape) remove"
  by (cases opn) (simp_all add: mul_store_get_def matmul_store_get_def store_get_at_def get_key_def Let_def)

lemma queue_add_same:
  "queue (store_add_at s k p) k = Some ((case queue s k of None \<Rightarrow> [] | Some q \<Rightarrow> q) @ heap s p)"
  by (simp add: queue_def store_add_at_def split: option.splits)

lemma get_empty:
  "queue s k = Some [] \<Longrightarrow> store_get_at s k remove = (Inl EmptyPrimitiveStore, s)"
  by (auto simp: queue_def store_get_at_def split: option.splits)

lemma get_head_keep:
  "queue s k = Some (x # xs) \<Longrightarrow> store_get_at s k False = (Inr x, s)"
  by (auto simp: queue_def store_get_at_def split: option.splits)

lemma get_remove_step:
  "queue s k = Some (x # xs) \<Longrightarrow>
     fst (store_get_at s k True) = Inr x \<and> queue (snd (store_get_at s k True)) k = Some xs"
  by (auto simp: queue_def store_get_at_def split: option.splits)

lemma get_error_state: "fst (store_get_at s k remove) = Inl e \<Longrightarrow>
    e = EmptyPrimitiveStore \<and> snd (store_get_at s k remove) = s"
  by (auto simp: store_get_at_def split: option.splits list.splits)

lemma add_other_key:
  "k1 \<noteq> k2 \<Longrightarrow> store s k1 = None \<or> store s k1 \<noteq> store s k2 \<Longrightarrow>
     queue (store_add_at s k1 p) k2 = queue s k2"
  by (cases "store s k1"; cases "store s k2") (auto simp: queue_def store_add_at_def)

lemma get_result_queue:
  "queue s k = queue s' k' \<Longrightarrow> fst (store_get_at s k remove) = fst (store_get_at s' k' remove')"
  by (cases "store s k"; cases "store s' k'")
    (auto simp: queue_def store_get_at_def split: list.splits)

lemmas store_eval = mul_store_add_def mul_store_get_def matmul_store_add_def matmul_store_get_def
  Let_def key_eval

section \<open>Claims about the store\<close>

text \<open>
  Claim C4. For every state of the store and every operation and shapes,
  \<^verbatim>\<open>store_get\<close> raises \<^verbatim>\<open>EmptyPrimitiveStore\<close> exactly when the key is absent or its queue
  is empty. Otherwise it returns the element at index 0 of the queue; with \<open>remove\<close> the
  state afterwards differs from the old one in the list object of the key alone, which has
  lost that element, and without \<open>remove\<close> the state is the old one.
\<close>

theorem store_get_outcome:
  "(fst (store_get opn s a_shape b_shape remove) = Inl EmptyPrimitiveStore \<longleftrightarrow>
      queue s (get_key opn a_shape b_shape) = None \<or> queue s (get_key opn a_shape b_shape) = Some [])
   \<and> (\<forall>p q. store s (get_key opn a_shape b_shape) = Some p \<and> heap s p = q \<and> q \<noteq> [] \<longrightarrow>
          fst (store_get opn s a_shape b_shape remove) = Inr (q ! 0)
        \<and> snd (store_get opn s a_shape b_shape True) = s\<lparr>heap := (heap s)(p := tl q)\<rparr>
        \<and> queue (snd (store_get opn s a_shape b_shape True)) (get_key opn a_shape b_shape) = Some (tl q)
        \<and> snd (store_get opn s a_shape b_shape False) = s)"
  by (auto simp: store_get_unfold store_get_at_def queue_def split: option.splits list.splits)

theorem store_get_outcome_witness:
  "fst (store_get BeaverMul demo_store (PyList [2, 3]) (PyTuple [3]) True) = Inr 5
   \<and> queue (snd (store_get BeaverMul demo_store (PyList [2, 3]) (PyTuple [3]) True))
        ''beaver_mul_(2, 3)_(3,)'' = Some [6]
   \<and> fst (store_get BeaverMul demo_store (PyTuple [1]) (PyTuple [1]) True) = Inl EmptyPrimitiveStore"
  using store_get_outcome [of BeaverMul demo_store "PyList [2, 3]" "PyTuple [3]" True]
    store_get_outcome [of BeaverMul demo_store "PyTuple [1]" "PyTuple [1]" True]
  by (simp add: demo_store_def queue_def key_eval)

text \<open>
  Claim C8. When the queue of a key is not empty, \<^verbatim>\<open>store_get\<close> without \<open>remove\<close> returns
  its head and leaves the whole state as it was (the dict and every list object), so a
  second such call returns the same head and again changes nothing.
\<close>

theorem store_peek_twice:
  "queue s (get_key opn a_shape b_shape) = Some (x # xs) \<Longrightarrow>
     store_get opn s a_shape b_shape False = (Inr x, s)
   \<and> store_get opn (snd (store_get opn s a_shape b_shape False)) a_shape b_shape False = (Inr x, s)"
  by (simp add: store_get_unfold get_head_keep)

theorem store_peek_twice_witness:
  "queue demo_store (get_key BeaverMul (PyTuple [2, 3]) (PyTuple [3])) = Some [5, 6]
   \<and> store_get BeaverMul demo_store (PyTuple [2, 3]) (PyTuple [3]) False = (Inr 5, demo_store)"
proof -
  have q: "queue demo_store (get_key BeaverMul (PyTuple [2, 3]) (PyTuple [3])) = Some [5, 6]"
    by (simp add: demo_store_def queue_def key_eval)
  from store_peek_twice [OF q] q show ?thesis by simp
qed

text \<open>
  Claim C10. Whenever \<^verbatim>\<open>store_get\<close> raises, for any operation, state, shapes and \<open>remove\<close>
  flag, the exception is \<^verbatim>\<open>EmptyPrimitiveStore\<close> and the state after the call is the state
  before it.
\<close>

theorem store_get_error_keeps_state:
  "fst (store_get opn s a_shape b_shape remove) = Inl e \<Longrightarrow>
     e = EmptyPrimitiveStore \<and> snd (store_get opn s a_shape b_shape remove) = s"
  by (simp add: store_get_unfold get_error_state)

theorem store_get_error_keeps_state_witness:
  "fst (store_get BeaverMatmul demo_store (PyTuple [2, 3]) (PyTuple [3]) True) = Inl EmptyPrimitiveStore
   \<and> snd (store_get BeaverMatmul demo_store (PyTuple [2, 3]) (PyTuple [3]) True) = demo_store"
proof -
  have e: "fst (store_get BeaverMatmul demo_store (PyTuple [2, 3]) (PyTuple [3]) True)
      = Inl EmptyPrimitiveStore"
    by (simp add: demo_store_def store_eval)
  from store_get_error_keeps_state [OF e] e show ?thesis by simp
qed

text \<open>
  Claim C5. Let the key of an operation and of two shapes be empty at first: absent from
  the dict, or present with an empty queue. Three calls of \<^verbatim>\<open>store_add\<close> under it follow,
  whose bundles hold \<open>b1\<close>, \<open>b2\<close> and \<open>b3\<close> when they are passed, and together the triples
  \<open>t1\<close>, \<open>t2\<close>, \<open>t3\<close> in this order (one triple each, for instance). Then four calls of
  \<^verbatim>\<open>store_get\<close> with \<open>remove\<close> return \<open>t1\<close>, \<open>t2\<close>, \<open>t3\<close> and raise \<^verbatim>\<open>EmptyPrimitiveStore\<close>.
\<close>

theorem store_fifo:
  assumes empty: "queue s0 (get_key opn a_shape b_shape) = None \<or>
                  queue s0 (get_key opn a_shape b_shape) = Some []"
    and s1: "s1 = store_add opn s0 p1 (tuple_of a_shape) (tuple_of b_shape)" and p1: "heap s0 p1 = b1"
    and s2: "s2 = store_add opn s1 p2 (tuple_of a_shape) (tuple_of b_shape)" and p2: "heap s1 p2 = b2"
    and s3: "s3 = store_add opn s2 p3 (tuple_of a_shape) (tuple_of b_shape)" and p3: "heap s2 p3 = b3"
    and bundles: "b1 @ b2 @ b3 = [t1, t2, t3]"
    and g1: "g1 = store_get opn s3 a_shape b_shape True"
    and g2: "g2 = store_get opn (snd g1) a_shape b_shape True"
    and g3: "g3 = store_get opn (snd g2) a_shape b_shape True"
    and g4: "g4 = store_get opn (snd g3) a_shape b_shape True"
  shows "fst g1 = Inr t1 \<and> fst g2 = Inr t2 \<and> fst g3 = Inr t3 \<and> fst g4 = Inl EmptyPrimitiveStore"
proof -
  let ?k = "get_key opn a_shape b_shape"
  have k: "add_key opn (tuple_of a_shape) (tuple_of b_shape) = ?k"
    by (rule add_key_tuple_of)
  have q1: "queue s1 ?k = Some b1"
    using empty p1 by (auto simp: s1 store_add_unfold k queue_add_same)
  have q2: "queue s2 ?k = Some (b1 @ b2)"
    using q1 p2 by (simp add: s2 store_add_unfold k queue_add_same)
  have "queue s3 ?k = Some (b1 @ b2 @ b3)"
    using q2 p3 by (simp add: s3 store_add_unfold k queue_add_same)
  with bundles have q3: "queue s3 ?k = Some [t1, t2, t3]" by simp
  have r1: "fst g1 = Inr t1" and q4: "queue (snd g1) ?k = Some [t2, t3]"
    using get_remove_step [OF q3] by (simp_all add: g1 store_get_unfold)
  have r2: "fst g2 = Inr t2" and q5: "queue (snd g2) ?k = Some [t3]"
    using get_remove_step [OF q4] by (simp_all add: g2 store_get_unfold)
  have r3: "fst g3 = Inr t3" and q6: "queue (snd g3) ?k = Some []"
    using get_remove_step [OF q5] by (simp_all add: g3 store_get_unfold)
  have r4: "fst g4 = Inl EmptyPrimitiveStore"
    using get_empty [OF q6] by (simp add: g4 store_get_unfold)
  from r1 r2 r3 r4 show ?thesis by simp
qed

theorem store_fifo_witness:
  "queue three_bundles (get_key BeaverMatmul (PyList [2, 3]) (PyTuple [3])) = None
   \<and> (let s3 = store_add BeaverMatmul (store_add BeaverMatmul (store_add BeaverMatmul three_bundles
                  1 (PyTuple [2, 3]) (PyTuple [3])) 2 (PyTuple [2, 3]) (PyTuple [3]))
                  3 (PyTuple [2, 3]) (PyTuple [3]);
           g1 = store_get BeaverMatmul s3 (PyList [2, 3]) (PyTuple [3]) True;
           g2 = store_get BeaverMatmul (snd g1) (PyList [2, 3]) (PyTuple [3]) True;
           g3 = store_get BeaverMatmul (snd g2) (PyList [2, 3]) (PyTuple [3]) True;
           g4 = store_get BeaverMatmul (snd g3) (PyList [2, 3]) (PyTuple [3]) True
       in fst g1 = Inr 7 \<and> fst g2 = Inr 8 \<and> fst g3 = Inr 9 \<and> fst g4 = Inl EmptyPrimitiveStore)
   \<and> queue three_bundles (get_key BeaverMul (PyTuple [1]) (PyTuple [1])) = None
   \<and> (let s3 = store_add BeaverMul (store_add BeaverMul (store_add BeaverMul three_bundles
                  1 (PyTuple [1]) (PyTuple [1])) 2 (PyTuple [1]) (PyTuple [1]))
                  3 (PyTuple [1]) (PyTuple [1]);
           g1 = store_get BeaverMul s3 (PyTuple [1]) (PyTuple [1]) True;
           g2 = store_get BeaverMul (snd g1) (PyTuple [1]) (PyTuple [1]) True;
           g3 = store_get BeaverMul (snd g2) (PyTuple [1]) (PyTuple [1]) True;
           g4 = store_get BeaverMul (snd g3) (PyTuple [1]) (PyTuple [1]) True
       in fst g1 = Inr 7 \<and> fst g2 = Inr 8 \<and> fst g3 = Inr 9 \<and> fst g4 = Inl EmptyPrimitiveStore)"
proof -
  have b: "[7] @ [8] @ [9] = [7, 8, 9 :: nat]" by simp
  have h1: "heap three_bundles 1 = [7]" by (simp add: three_bundles_def)
  let ?a = "PyList [2, 3]" and ?b = "PyTuple [3]"
  let ?s1 = "store_add BeaverMatmul three_bundles 1 (tuple_of ?a) (tuple_of ?b)"
  let ?s2 = "store_add BeaverMatmul ?s1 2 (tuple_of ?a) (tuple_of ?b)"
  have e: "queue three_bundles (get_key BeaverMatmul ?a ?b) = None"
    by (simp add: three_bundles_def queue_def)
  then have h0: "queue three_bundles (get_key BeaverMatmul ?a ?b) = None \<or>
      queue three_bundles (get_key BeaverMatmul ?a ?b) = Some []" by simp
  have h2: "heap ?s1 2 = [8]" by (simp add: three_bundles_def store_eval)
  have h3: "heap ?s2 3 = [9]" by (simp add: three_bundles_def store_eval)
  note matmul = store_fifo [OF h0 refl h1 refl h2 refl h3 b refl refl refl refl]
  let ?c = "PyTuple [1]"
  let ?u1 = "store_add BeaverMul three_bundles 1 (tuple_of ?c) (tuple_of ?c)"
  let ?u2 = "store_add BeaverMul ?u1 2 (tuple_of ?c) (tuple_of ?c)"
  have e': "queue three_bundles (get_key BeaverMul ?c ?c) = None"
    by (simp add: three_bundles_def queue_def)
  then have k0: "queue three_bundles (get_key BeaverMul ?c ?c) = None \<or>
      queue three_bundles (get_key BeaverMul ?c ?c) = Some []" by simp
  have k2: "heap ?u1 2 = [8]" by (simp add: three_bundles_def store_eval)
  have k3: "heap ?u2 3 = [9]" by (simp add: three_bundles_def store_eval)
  note mul = store_fifo [OF k0 refl h1 refl k2 refl k3 b refl refl refl refl]
  from matmul mul e e' show ?thesis
    by (simp add: Let_def tuple_of_def)
qed

text \<open>
  Claim C9, as the code has it. The key that \<^verbatim>\<open>store_add\<close> builds from an operation and two
  shapes equals the key that \<^verbatim>\<open>store_get\<close> builds only when the operation is the same and
  the shapes passed to \<^verbatim>\<open>store_add\<close> are the tuples of the shapes passed to \<^verbatim>\<open>store_get\<close>.
  When they differ in one of the three, and the two keys do not hold one and the same list
  object, \<^verbatim>\<open>store_add\<close> leaves the other key's queue as it was and \<^verbatim>\<open>store_get\<close> under the
  other key returns what it returned before. Keys of \<^verbatim>\<open>beaver_mul\<close> and of
  \<^verbatim>\<open>beaver_matmul\<close> never coincide.
\<close>

theorem key_isolation:
  assumes differ: "op1 \<noteq> op2 \<or> a1 \<noteq> tuple_of a2 \<or> b1 \<noteq> tuple_of b2"
    and apart: "store s (add_key op1 a1 b1) = None \<or>
                store s (add_key op1 a1 b1) \<noteq> store s (get_key op2 a2 b2)"
  shows "add_key op1 a1 b1 \<noteq> get_key op2 a2 b2
    \<and> queue (store_add op1 s p a1 b1) (get_key op2 a2 b2) = queue s (get_key op2 a2 b2)
    \<and> fst (store_get op2 (store_add op1 s p a1 b1) a2 b2 remove) = fst (store_get op2 s a2 b2 remove)
    \<and> add_key BeaverMul a1 b1 \<noteq> get_key BeaverMatmul a2 b2
    \<and> add_key BeaverMatmul a1 b1 \<noteq> get_key BeaverMul a2 b2"
proof -
  from differ have k: "add_key op1 a1 b1 \<noteq> get_key op2 a2 b2"
    by (simp add: key_eq_iff)
  from k apart
  have q: "queue (store_add op1 s p a1 b1) (get_key op2 a2 b2) = queue s (get_key op2 a2 b2)"
    by (simp add: store_add_unfold add_other_key)
  then have "fst (store_get op2 (store_add op1 s p a1 b1) a2 b2 remove)
      = fst (store_get op2 s a2 b2 remove)"
    by (simp add: store_get_unfold get_result_queue)
  with k q show ?thesis by (simp add: mul_matmul_keys_differ)
qed

theorem key_isolation_witness:
  "add_key BeaverMul (PyTuple [1]) (PyTuple [1]) \<noteq> get_key BeaverMul (PyTuple [2, 3]) (PyTuple [3])
   \<and> fst (store_get BeaverMul (store_add BeaverMul demo_store 1 (PyTuple [1]) (PyTuple [1]))
        (PyTuple [2, 3]) (PyTuple [3]) True) = Inr 5"
proof -
  have d: "BeaverMul \<noteq> BeaverMul \<or> PyTuple [1] \<noteq> tuple_of (PyTuple [2, 3])
      \<or> PyTuple [1] \<noteq> tuple_of (PyTuple [3])"
    by (simp add: tuple_of_def)
  have a: "store demo_store (add_key BeaverMul (PyTuple [1]) (PyTuple [1])) = None \<or>
      store demo_store (add_key BeaverMul (PyTuple [1]) (PyTuple [1]))
        \<noteq> store demo_store (get_key BeaverMul (PyTuple [2, 3]) (PyTuple [3]))"
    by (simp add: demo_store_def key_eval)
  have g: "fst (store_get BeaverMul demo_store (PyTuple [2, 3]) (PyTuple [3]) True) = Inr 5"
    by (simp add: demo_store_def store_eval)
  from key_isolation [OF d a, of 1 True] g show ?thesis by simp
qed

text \<open>
  Claim C9 as stated fails when two keys hold the same list object. From the state without
  keys, the empty list object 0 is added under \<^verbatim>\<open>beaver_mul\<close> and under \<^verbatim>\<open>beaver_matmul\<close>
  for the shapes \<^verbatim>\<open>(1,)\<close> and \<^verbatim>\<open>(1,)\<close>: both calls install it. The keys differ, and
  \<^verbatim>\<open>store_get\<close> under \<^verbatim>\<open>beaver_matmul\<close> raises. A further \<^verbatim>\<open>store_add\<close> under \<^verbatim>\<open>beaver_mul\<close>
  of a bundle holding 7 extends the shared object, and \<^verbatim>\<open>store_get\<close> under
  \<^verbatim>\<open>beaver_matmul\<close> now returns 7.
\<close>

theorem shared_list_breaks_isolation:
  "add_key BeaverMul (PyTuple [1]) (PyTuple [1]) \<noteq> get_key BeaverMatmul (PyTuple [1]) (PyTuple [1])
   \<and> fst (store_get BeaverMatmul
        (store_add BeaverMatmul (store_add BeaverMul empty_state 0 (PyTuple [1]) (PyTuple [1]))
           0 (PyTuple [1]) (PyTuple [1]))
        (PyTuple [1]) (PyTuple [1]) True) = Inl EmptyPrimitiveStore
   \<and> fst (store_get BeaverMatmul
        (store_add BeaverMul
           (store_add BeaverMatmul (store_add BeaverMul empty_state 0 (PyTuple [1]) (PyTuple [1]))
              0 (PyTuple [1]) (PyTuple [1]))
           1 (PyTuple [1]) (PyTuple [1]))
        (PyTuple [1]) (PyTuple [1]) True) = Inr 7"
  by (simp add: empty_state_def store_eval)

text \<open>
  Claim C3 does not hold of the code: \<^verbatim>\<open>mul_store_add\<close> and \<^verbatim>\<open>matmul_store_add\<close> format
  the shapes as they are passed, and only \<^verbatim>\<open>mul_store_get\<close> and \<^verbatim>\<open>matmul_store_get\<close> apply
  \<^verbatim>\<open>tuple\<close>. A bundle added with the shapes \<^verbatim>\<open>[2, 3]\<close> and \<^verbatim>\<open>[3]\<close> goes under the key
  \<^verbatim>\<open>beaver_mul_[2, 3]_[3]\<close>, and the retrieval with \<^verbatim>\<open>(2, 3)\<close> and \<^verbatim>\<open>(3,)\<close> looks under
  \<^verbatim>\<open>beaver_mul_(2, 3)_(3,)\<close> and raises. The other way round, tuples on the add path and
  lists on the get path, the bundle is found.
\<close>

theorem list_shapes_added_tuple_shapes_sought:
  "add_key BeaverMul (PyList [2, 3]) (PyList [3]) = ''beaver_mul_[2, 3]_[3]''
   \<and> get_key BeaverMul (PyTuple [2, 3]) (PyTuple [3]) = ''beaver_mul_(2, 3)_(3,)''
   \<and> fst (store_get BeaverMul (store_add BeaverMul empty_state 1 (PyList [2, 3]) (PyList [3]))
        (PyTuple [2, 3]) (PyTuple [3]) True) = Inl EmptyPrimitiveStore
   \<and> fst (store_get BeaverMul (store_add BeaverMul empty_state 1 (PyTuple [2, 3]) (PyTuple [3]))
        (PyList [2, 3]) (PyList [3]) True) = Inr 7"
  by (simp add: empty_state_def store_eval)

section \<open>Facts about the reshape\<close>

lemma py_zip_nth:
  "rows \<noteq> [] \<Longrightarrow> list_all (\<lambda>r. length r = n) rows \<Longrightarrow>
     py_zip rows = map (\<lambda>i. map (\<lambda>r. r ! i) rows) [0..<n]"
proof (induction n arbitrary: rows)
  case 0
  then have "[] \<in> set rows" by (cases rows) auto
  then show ?case by (subst py_zip.simps) simp
next
  case (Suc n)
  from Suc.prems have ne: "[] \<notin> set rows" by (auto simp: list_all_iff)
  from Suc.prems have tl_len: "list_all (\<lambda>r. length r = n) (map tl rows)"
    by (auto simp: list_all_iff)
  from Suc.prems have "map tl rows \<noteq> []" by simp
  from Suc.IH [OF this tl_len]
  have ih: "py_zip (map tl rows) = map (\<lambda>i. map (\<lambda>r. r ! i) (map tl rows)) [0..<n]" .
  have "hd r = r ! 0" if "r \<in> set rows" for r
  proof -
    from that ne have "r \<noteq> []" by auto
    then show ?thesis by (rule hd_conv_nth)
  qed
  then have hd0: "map hd rows = map (\<lambda>r. r ! 0) rows" by simp
  have tls: "map (\<lambda>r. r ! i) (map tl rows) = map (\<lambda>r. r ! Suc i) rows" if "i < n" for i
    using Suc.prems(2) that by (auto simp: list_all_iff nth_tl)
  have "py_zip rows = map hd rows # py_zip (map tl rows)"
    using Suc.prems(1) ne by (subst py_zip.simps) simp
  also have "\<dots> = map (\<lambda>r. r ! 0) rows # map (\<lambda>i. map (\<lambda>r. r ! Suc i) rows) [0..<n]"
    using ih hd0 tls by simp
  also have "\<dots> = map (\<lambda>i. map (\<lambda>r. r ! i) rows) (0 # map Suc [0..<n])"
    by (simp add: comp_def)
  also have "0 # map Suc [0..<n] = [0..<Suc n]"
    by (simp add: map_Suc_upt upt_conv_Cons)
  finally show ?case .
qed


lemma py_zip3:
  "length a = n \<Longrightarrow> length b = n \<Longrightarrow> length c = n \<Longrightarrow>
     py_zip [a, b, c] = map (\<lambda>i. [a ! i, b ! i, c ! i]) [0..<n]"
  using py_zip_nth [of "[a, b, c]" n] by simp

text \<open>
  Claim C2, as the code has it. For at least one instance and \<open>n\<close> parties (every record
  holds three lists of \<open>n\<close> shares), the reshape yields \<open>n\<close> bundles; bundle \<open>i\<close> has one
  entry per instance, in the order of the instances, and its entry \<open>j\<close> is the list of the
  \<open>i\<close>-th a-share, b-share and c-share of instance \<open>j\<close>, in this order.
\<close>

theorem reshape_per_party:
  assumes m: "triple_sequential \<noteq> []"
    and n: "list_all (\<lambda>(a_shares, b_shares, c_shares).
              length a_shares = n \<and> length b_shares = n \<and> length c_shares = n) triple_sequential"
  shows "length (reshape triple_sequential) = n \<and>
    (\<forall>i<n. length (reshape triple_sequential ! i) = length triple_sequential \<and>
      (\<forall>j<length triple_sequential.
         reshape triple_sequential ! i ! j =
           (case triple_sequential ! j of (a_shares, b_shares, c_shares) \<Rightarrow>
              [a_shares ! i, b_shares ! i, c_shares ! i])))"
proof -
  let ?rows = "map (\<lambda>(a, b, c). py_zip [a, b, c]) triple_sequential"
  have rows_eq: "?rows = map (\<lambda>(a, b, c). map (\<lambda>i. [a ! i, b ! i, c ! i]) [0..<n]) triple_sequential"
    using n by (auto simp: list_all_iff py_zip3)
  have len: "list_all (\<lambda>r. length r = n) ?rows"
    unfolding rows_eq by (auto simp: list_all_iff)
  have ne: "?rows \<noteq> []" using m by simp
  have r: "reshape triple_sequential = map (\<lambda>i. map (\<lambda>r. r ! i) ?rows) [0..<n]"
    unfolding reshape_def by (rule py_zip_nth [OF ne len])
  have entry: "?rows ! j ! i = (case triple_sequential ! j of (a, b, c) \<Rightarrow> [a ! i, b ! i, c ! i])"
    if "i < n" "j < length triple_sequential" for i j
    using that unfolding rows_eq by (auto split: prod.splits)
  show ?thesis
    unfolding r using entry by (simp del: map_map)
qed

theorem reshape_per_party_witness:
  "reshape [([1, 2], [3, 4], [5, 6]), ([11, 12], [13, 14], [15, 16 :: nat])] ! 1 ! 0 = [2, 4, 6]
   \<and> length (reshape [([1, 2], [3, 4], [5, 6]), ([11, 12], [13, 14], [15, 16 :: nat])]) = 2"
proof -
  let ?ts = "[([1, 2], [3, 4], [5, 6]), ([11, 12], [13, 14], [15, 16 :: nat])]"
  have m: "?ts \<noteq> []" by simp
  have n: "list_all (\<lambda>(a_shares, b_shares, c_shares).
              length a_shares = 2 \<and> length b_shares = 2 \<and> length c_shares = 2) ?ts" by simp
  from reshape_per_party [OF m n] show ?thesis by simp
qed

text \<open>
  Claim C2 as stated includes no instance at all. Then \<^verbatim>\<open>zip\<close> is called without an
  argument and yields nothing: the reshape returns no bundle, not two empty ones.
\<close>

theorem reshape_no_instances:
  "reshape ([] :: (nat list \<times> nat list \<times> nat list) list) = []
   \<and> length (reshape ([] :: (nat list \<times> nat list \<times> nat list) list)) \<noteq> 2"
  by (simp add: reshape_def py_zip.simps)

section \<open>Facts about the triple generator\<close>

lemma snd_and_then:
  "(snd (and_then m f) = Inr y) = (\<exists>x. snd m = Inr x \<and> snd (f x) = Inr y)"
  by (cases m; cases "snd m") (auto simp: and_then_def split: prod.splits)

lemma snd_pure [simp]: "snd (pure r) = r"
  by (simp add: pure_def)

lemma snd_call [simp]: "snd (call ev r) = r"
  by (simp add: call_def)

lemma getattr_mul [simp]: "getattr_operator env ''mul'' = Some (operator_mul env)"
  by (simp add: getattr_operator_def)

lemma getattr_matmul [simp]: "getattr_operator env ''matmul'' = Some (operator_matmul env)"
  by (simp add: getattr_operator_def)

lemma get_triples_result:
  "(snd (get_triples env op_str nr_parties a_shape b_shape ring_size kw) = Inr triple) =
   (\<exists>cmd min_value max_value a_rand a_shares b_rand b_shares c_val c_shares.
      getattr_operator env op_str = Some cmd \<and>
      compute_min_max_from_ring env ring_size = Inr (min_value, max_value) \<and>
      integers env 0 min_value max_value a_shape = Inr a_rand \<and>
      get_shares_from_local_secret env a_rand nr_parties a_shape (randbits env 32) = Inr a_shares \<and>
      integers env 1 min_value max_value b_shape = Inr b_rand \<and>
      get_shares_from_local_secret env b_rand nr_parties b_shape (randbits env 32) = Inr b_shares \<and>
      cmd a_rand b_rand kw = Inr c_val \<and>
      get_shares_from_local_secret env c_val nr_parties (tensor_shape env c_val) (randbits env 32)
        = Inr c_shares \<and>
      triple = reshape [(a_shares, b_shares, c_shares)])"
  unfolding get_triples_def
  by (cases "getattr_operator env op_str")
     (auto simp: snd_and_then split: prod.splits)

lemma get_triples_log:
  assumes "getattr_operator env op_str = Some cmd"
    and "compute_min_max_from_ring env ring_size = Inr (min_value, max_value)"
    and "integers env 0 min_value max_value a_shape = Inr a_rand"
    and "get_shares_from_local_secret env a_rand nr_parties a_shape (randbits env 32) = Inr a_shares"
    and "integers env 1 min_value max_value b_shape = Inr b_rand"
    and "get_shares_from_local_secret env b_rand nr_parties b_shape (randbits env 32) = Inr b_shares"
    and "cmd a_rand b_rand kw = Inr c_val"
  shows "fst (get_triples env op_str nr_parties a_shape b_shape ring_size kw) =
    [RandBits 32 (randbits env 32),
     Integers min_value max_value a_shape,
     GetShares a_rand nr_parties a_shape (randbits env 32),
     Integers min_value max_value b_shape,
     GetShares b_rand nr_parties b_shape (randbits env 32),
     Cmd a_rand b_rand,
     GetShares c_val nr_parties (tensor_shape env c_val) (randbits env 32)]"
  using assms
  by (simp add: get_triples_def and_then_def pure_def call_def split: sum.splits prod.splits)



lemma generator_result:
  "(snd (generator opn env nr_parties a_shape b_shape ring_size kw) = Inr triple) =
   (\<exists>min_value max_value a_rand a_shares b_rand b_shares c_val c_shares.
      compute_min_max_from_ring env ring_size = Inr (min_value, max_value) \<and>
      integers env 0 min_value max_value a_shape = Inr a_rand \<and>
      get_shares_from_local_secret env a_rand nr_parties a_shape (randbits env 32) = Inr a_shares \<and>
      integers env 1 min_value max_value b_shape = Inr b_rand \<and>
      get_shares_from_local_secret env b_rand nr_parties b_shape (randbits env 32) = Inr b_shares \<and>
      kw = [] \<and>
      combinator opn env a_rand b_rand = Inr c_val \<and>
      get_shares_from_local_secret env c_val nr_parties (tensor_shape env c_val) (randbits env 32)
        = Inr c_shares \<and>
      triple = reshape [(a_shares, b_shares, c_shares)])"
proof (cases opn)
  case BeaverMul
  show ?thesis
    unfolding BeaverMul generator.simps combinator.simps get_triples_mul_def get_triples_result
    by (auto simp: operator_mul_def split: if_splits)
next
  case BeaverMatmul
  show ?thesis
    unfolding BeaverMatmul generator.simps combinator.simps get_triples_matmul_def get_triples_result
    by (auto simp: operator_matmul_def split: if_splits)
qed

lemmas gen_eval = get_triples_def get_triples_mul_def get_triples_matmul_def and_then_def pure_def
  call_def getattr_operator_def operator_mul_def operator_matmul_def demo_env_def reshape_def
  py_zip.simps

text \<open>A run in the sample environment: two parties, operands of shape \<^verbatim>\<open>(2,)\<close>.\<close>

lemma demo_mul_run:
  "get_triples demo_env ''mul'' 2 (PyTuple [2]) (PyTuple [2]) (2 ^ 32) [] =
    ([RandBits 32 11, Integers (- 2147483648) 2147483647 (PyTuple [2]),
      GetShares [3, 5] 2 (PyTuple [2]) 11,
      Integers (- 2147483648) 2147483647 (PyTuple [2]),
      GetShares [2, 7] 2 (PyTuple [2]) 11, Cmd [3, 5] [2, 7],
      GetShares [6, 35] 2 (PyTuple [2]) 11],
     Inr [[[[11, 11], [11, 11], [11, 11]]], [[[- 8, - 6], [- 9, - 4], [- 5, 24]]]])"
  by (simp add: gen_eval)

lemma demo_getattr_nosuch: "getattr_operator demo_env ''nosuch'' = None"
  by (simp add: getattr_operator_def demo_env_def)

text \<open>
  Claim C1, as the code has it. A call of the generator registered for \<^verbatim>\<open>beaver_mul\<close> or
  \<^verbatim>\<open>beaver_matmul\<close> returns bundles exactly when every collaborator returns and no extra
  keyword argument is passed. Then the bundles are the reshape of the shares of \<open>a_rand\<close>,
  \<open>b_rand\<close> and \<open>c_val\<close>, where \<open>a_rand\<close> and \<open>b_rand\<close> are the two tensors drawn at random
  and \<open>c_val\<close> is the operation's combinator applied to these two plaintext tensors:
  \<^verbatim>\<open>a_rand * b_rand\<close> for \<^verbatim>\<open>beaver_mul\<close>, \<^verbatim>\<open>a_rand @ b_rand\<close> for \<^verbatim>\<open>beaver_matmul\<close>. The
  combinator is called after \<open>a_rand\<close> and \<open>b_rand\<close> have each been split into shares and
  before \<open>c_val\<close> is split.
\<close>

theorem triple_product_in_plaintext:
  "(snd (generator opn env nr_parties a_shape b_shape ring_size kw) = Inr triple) =
   (\<exists>min_value max_value a_rand a_shares b_rand b_shares c_val c_shares.
      compute_min_max_from_ring env ring_size = Inr (min_value, max_value) \<and>
      integers env 0 min_value max_value a_shape = Inr a_rand \<and>
      get_shares_from_local_secret env a_rand nr_parties a_shape (randbits env 32) = Inr a_shares \<and>
      integers env 1 min_value max_value b_shape = Inr b_rand \<and>
      get_shares_from_local_secret env b_rand nr_parties b_shape (randbits env 32) = Inr b_shares \<and>
      kw = [] \<and>
      combinator opn env a_rand b_rand = Inr c_val \<and>
      get_shares_from_local_secret env c_val nr_parties (tensor_shape env c_val) (randbits env 32)
        = Inr c_shares \<and>
      triple = reshape [(a_shares, b_shares, c_shares)] \<and>
      fst (generator opn env nr_parties a_shape b_shape ring_size kw) =
        [RandBits 32 (randbits env 32),
         Integers min_value max_value a_shape,
         GetShares a_rand nr_parties a_shape (randbits env 32),
         Integers min_value max_value b_shape,
         GetShares b_rand nr_parties b_shape (randbits env 32),
         Cmd a_rand b_rand,
         GetShares c_val nr_parties (tensor_shape env c_val) (randbits env 32)])"
  (is "?returns = ?how")
proof
  assume ?returns
  then obtain min_value max_value a_rand a_shares b_rand b_shares c_val c_shares where
    steps: "compute_min_max_from_ring env ring_size = Inr (min_value, max_value)"
      "integers env 0 min_value max_value a_shape = Inr a_rand"
      "get_shares_from_local_secret env a_rand nr_parties a_shape (randbits env 32) = Inr a_shares"
      "integers env 1 min_value max_value b_shape = Inr b_rand"
      "get_shares_from_local_secret env b_rand nr_parties b_shape (randbits env 32) = Inr b_shares"
    and kw: "kw = []"
    and c: "combinator opn env a_rand b_rand = Inr c_val"
    and rest: "get_shares_from_local_secret env c_val nr_parties (tensor_shape env c_val)
        (randbits env 32) = Inr c_shares"
      "triple = reshape [(a_shares, b_shares, c_shares)]"
    unfolding generator_result by blast
  have "fst (generator opn env nr_parties a_shape b_shape ring_size kw) =
        [RandBits 32 (randbits env 32),
         Integers min_value max_value a_shape,
         GetShares a_rand nr_parties a_shape (randbits env 32),
         Integers min_value max_value b_shape,
         GetShares b_rand nr_parties b_shape (randbits env 32),
         Cmd a_rand b_rand,
         GetShares c_val nr_parties (tensor_shape env c_val) (randbits env 32)]"
  proof (cases opn)
    case BeaverMul
    have "operator_mul env a_rand b_rand kw = Inr c_val"
      using kw c by (simp add: operator_mul_def BeaverMul)
    from get_triples_log [OF getattr_mul steps this]
    show ?thesis by (simp add: BeaverMul get_triples_mul_def)
  next
    case BeaverMatmul
    have "operator_matmul env a_rand b_rand kw = Inr c_val"
      using kw c by (simp add: operator_matmul_def BeaverMatmul)
    from get_triples_log [OF getattr_matmul steps this]
    show ?thesis by (simp add: BeaverMatmul get_triples_matmul_def)
  qed
  with steps kw c rest show ?how by blast
next
  assume ?how
  then show ?returns unfolding generator_result by blast
qed

theorem triple_product_in_plaintext_witness:
  "snd (generator BeaverMul demo_env 2 (PyTuple [2]) (PyTuple [2]) (2 ^ 32) []) =
     Inr [[[[11, 11], [11, 11], [11, 11]]], [[[- 8, - 6], [- 9, - 4], [- 5, 24]]]]
   \<and> fst (generator BeaverMul demo_env 2 (PyTuple [2]) (PyTuple [2]) (2 ^ 32) []) ! 5 = Cmd [3, 5] [2, 7]
   \<and> fst (generator BeaverMul demo_env 2 (PyTuple [2]) (PyTuple [2]) (2 ^ 32) []) ! 6
       = GetShares [6, 35] 2 (PyTuple [2]) 11"
proof -
  let ?run = "generator BeaverMul demo_env 2 (PyTuple [2]) (PyTuple [2]) (2 ^ 32) []"
  let ?triple = "[[[[11, 11], [11, 11], [11, 11]]], [[[- 8, - 6], [- 9, - 4], [- 5, 24]]]]"
  have r: "snd ?run = Inr ?triple"
    using demo_mul_run by (simp add: get_triples_mul_def)
  with triple_product_in_plaintext [of BeaverMul demo_env 2 "PyTuple [2]" "PyTuple [2]" "2 ^ 32" "[]" ?triple]
  obtain min_value max_value a_rand b_rand c_val where
    a: "integers demo_env 0 min_value max_value (PyTuple [2]) = Inr a_rand"
    and b: "integers demo_env 1 min_value max_value (PyTuple [2]) = Inr b_rand"
    and c: "combinator BeaverMul demo_env a_rand b_rand = Inr c_val"
    and log: "fst ?run =
        [RandBits 32 (randbits demo_env 32),
         Integers min_value max_value (PyTuple [2]),
         GetShares a_rand 2 (PyTuple [2]) (randbits demo_env 32),
         Integers min_value max_value (PyTuple [2]),
         GetShares b_rand 2 (PyTuple [2]) (randbits demo_env 32),
         Cmd a_rand b_rand,
         GetShares c_val 2 (tensor_shape demo_env c_val) (randbits demo_env 32)]"
    by blast
  from a have a': "a_rand = [3, 5]" by (simp add: demo_env_def)
  from b have b': "b_rand = [2, 7]" by (simp add: demo_env_def)
  from c have c': "c_val = [6, 35]" unfolding a' b' by (auto simp: demo_env_def)
  have "fst ?run ! 5 = Cmd [3, 5] [2, 7]"
    unfolding log a' b' by simp
  moreover have "fst ?run ! 6 = GetShares [6, 35] 2 (PyTuple [2]) 11"
    unfolding log c' by (simp add: demo_env_def)
  ultimately show ?thesis using r by simp
qed

text \<open>
  Claim C1 as stated puts the combinator before any sharing. In the run of the sample
  environment (two parties, operands of shape \<^verbatim>\<open>(2,)\<close>, \<^verbatim>\<open>beaver_mul\<close>) the share splitter
  has been called twice, for A and for B, when the combinator is called.
\<close>

theorem operands_split_before_product:
  "fst (generator BeaverMul demo_env 2 (PyTuple [2]) (PyTuple [2]) (2 ^ 32) []) =
     [RandBits 32 11, Integers (- 2147483648) 2147483647 (PyTuple [2]),
      GetShares [3, 5] 2 (PyTuple [2]) 11,
      Integers (- 2147483648) 2147483647 (PyTuple [2]),
      GetShares [2, 7] 2 (PyTuple [2]) 11, Cmd [3, 5] [2, 7],
      GetShares [6, 35] 2 (PyTuple [2]) 11]
   \<and> splits_before_cmd (fst (generator BeaverMul demo_env 2 (PyTuple [2]) (PyTuple [2]) (2 ^ 32) [])) = 2
   \<and> splits_before_cmd (fst (generator BeaverMul demo_env 2 (PyTuple [2]) (PyTuple [2]) (2 ^ 32) [])) \<noteq> 0"
  using demo_mul_run by (simp add: get_triples_mul_def)



text \<open>
  Claim C7, as the code has it. When \<^verbatim>\<open>getattr(operator, op_str)\<close> finds no attribute, the
  call raises \<^verbatim>\<open>AttributeError\<close>; it has then generated no seed, drawn no operand and
  called the share splitter not once.
\<close>

theorem unresolved_operation_fails:
  "getattr_operator env op_str = None \<Longrightarrow>
     get_triples env op_str nr_parties a_shape b_shape ring_size kw = ([], Inl AttributeError)"
  by (simp add: get_triples_def and_then_def pure_def)

theorem unresolved_operation_fails_witness:
  "getattr_operator demo_env ''nosuch'' = None \<and>
   get_triples demo_env ''nosuch'' 2 (PyTuple [2]) (PyTuple [2]) (2 ^ 32) [] = ([], Inl AttributeError)"
  using unresolved_operation_fails [OF demo_getattr_nosuch, of 2 "PyTuple [2]" "PyTuple [2]" "2 ^ 32" "[]"]
    demo_getattr_nosuch by simp

text \<open>
  Claim C7 as stated fails twice. The exception of a name that does not resolve is
  \<^verbatim>\<open>AttributeError\<close>, not \<^verbatim>\<open>UnknownOperationError\<close>. And a name for which no generator is
  registered, but which the \<^verbatim>\<open>operator\<close> module defines, such as \<^verbatim>\<open>add\<close>, does not fail:
  the call returns bundles whose C is \<^verbatim>\<open>a_rand + b_rand\<close>.
\<close>

theorem unknown_operation_is_attribute_error:
  "snd (get_triples demo_env ''nosuch'' 2 (PyTuple [2]) (PyTuple [2]) (2 ^ 32) []) = Inl AttributeError
   \<and> snd (get_triples demo_env ''nosuch'' 2 (PyTuple [2]) (PyTuple [2]) (2 ^ 32) [])
       \<noteq> Inl UnknownOperationError
   \<and> snd (get_triples demo_env ''add'' 2 (PyTuple [2]) (PyTuple [2]) (2 ^ 32) []) =
       Inr [[[[11, 11], [11, 11], [11, 11]]], [[[- 8, - 6], [- 9, - 4], [- 6, 1]]]]"
  by (simp add: gen_eval)

end
